theory Spec2Isabelle
  imports Main "HOL-Library.Sublist"
begin

section \<open>The RANDOMIZE_SPEECH action of \<^verbatim>\<open>src/agent/src/clAction.ts\<close>\<close>

text \<open>
  The action has two entry points, \<^verbatim>\<open>validate\<close> and \<^verbatim>\<open>handler\<close>, and one private
  function, \<^verbatim>\<open>generatePodcastContent\<close>. The handler is a linear chain of awaited calls
  inside one \<^verbatim>\<open>try\<close>/\<^verbatim>\<open>catch\<close>. Everything it calls lives outside the file: the three
  service classes, the language-model client, \<^verbatim>\<open>extractMessages\<close>, the logger and
  \<^verbatim>\<open>JSON.stringify\<close>. The model takes each of them as a field of a record
  \<open>world\<close>, a function from the call's arguments to either the raised error
  (\<open>Inl\<close>) or the returned value (\<open>Inr\<close>). Every operation is called at most once in
  a run, so a function of the arguments loses nothing. The callback is an argument of
  the handler, a function of the same kind: handed a text, it throws or returns. The
  handler hands it ten different texts, each at most once in a run.

  A run is a pair: the list of events in the order they happen (every call into the
  world, every text handed to the callback, every line given to the logger), and the
  way the promise settles (\<open>Inl\<close> rejected with an error, \<open>Inr\<close> resolved with a value).
\<close>

subsection \<open>Strings\<close>

text \<open>
  A string is the list of the bytes the source file holds for it (UTF-8). The pictographs
  that open the status texts are written out byte by byte.
\<close>

definition warning_sign :: string where
  "warning_sign = [CHR 0xE2, CHR 0x9A, CHR 0xA0, CHR 0xEF, CHR 0xB8, CHR 0x8F]"

definition game_die :: string where
  "game_die = [CHR 0xF0, CHR 0x9F, CHR 0x8E, CHR 0xB2]"

definition writing_hand :: string where
  "writing_hand = [CHR 0xE2, CHR 0x9C, CHR 0x8D, CHR 0xEF, CHR 0xB8, CHR 0x8F]"

definition studio_microphone :: string where
  "studio_microphone = [CHR 0xF0, CHR 0x9F, CHR 0x8E, CHR 0x99, CHR 0xEF, CHR 0xB8, CHR 0x8F]"

definition outbox_tray :: string where
  "outbox_tray = [CHR 0xF0, CHR 0x9F, CHR 0x93, CHR 0xA4]"

definition arrows_button :: string where
  "arrows_button = [CHR 0xF0, CHR 0x9F, CHR 0x94, CHR 0x84]"

definition link_sign :: string where
  "link_sign = [CHR 0xF0, CHR 0x9F, CHR 0x94, CHR 0x97]"

definition sparkles :: string where
  "sparkles = [CHR 0xE2, CHR 0x9C, CHR 0xA8]"

definition party_popper :: string where
  "party_popper = [CHR 0xF0, CHR 0x9F, CHR 0x8E, CHR 0x89]"

definition cross_mark :: string where
  "cross_mark = [CHR 0xE2, CHR 0x9D, CHR 0x8C]"

text \<open>The texts handed to the callback, in the order of the source (lines 44 to 106).\<close>

definition text_missing_env :: string where
  "text_missing_env =
     warning_sign @ '' Missing environment variables. Please check the configuration.''"

definition text_requesting :: string where
  "text_requesting = game_die @ '' Requesting random parameters from Chainlink VRF ...''"

definition text_generating :: string where
  "text_generating = writing_hand @ '' Generating podcast content...''"

definition text_converting :: string where
  "text_converting = studio_microphone @ '' Converting text to speech...''"

definition text_uploading :: string where
  "text_uploading = outbox_tray @ '' Uploading to IPFS...''"

definition text_updating :: string where
  "text_updating = arrows_button @ '' Updating NFT metadata for Tokenized Podcast ...''"

definition text_minting :: string where
  "text_minting = link_sign @ '' Minting NFT in Story ...''"

definition text_secured :: "string \<Rightarrow> string \<Rightarrow> string" where
  "text_secured tx ip =
     sparkles @ '' Podcast secured on story protocol '' @ party_popper @ '' Hash: '' @ tx
       @ '' - Ip Id : '' @ ip"

definition text_minted :: string where
  "text_minted =
     sparkles @ '' Podcast generated and minted successfully! Check OpenSea to view your NFT ''
       @ party_popper @ '': https://testnets.opensea.io/collection/podcast-chapter-1''"

definition text_error :: string where
  "text_error = cross_mark @ '' An error occurred while generating the podcast.''"

subsection \<open>Data\<close>

datatype js_error = Error string

record 'rp PodcastPrompt =
  instruction :: string
  topic :: string
  daily_messages :: "string list"
  random_parameters :: 'rp
  duration :: string
  language :: string

record PodcastMetadata =
  name :: string
  description :: string
  image_url :: string \<comment> \<open>the field \<^verbatim>\<open>image\<close>\<close>
  external_url :: string

record MessageParam =
  role :: string
  content :: string

record MessageCreateParams =
  model :: string
  max_tokens :: nat
  messages :: "MessageParam list"

text \<open>
  The blocks of a language-model response: a text block carries its text, a tool-use
  block carries an id, a name and an input and has no \<^verbatim>\<open>text\<close> property.
\<close>

datatype ContentBlock = TextBlock string | ToolUseBlock string string string

fun block_type :: "ContentBlock \<Rightarrow> string" where
  "block_type (TextBlock t) = ''text''"
| "block_type (ToolUseBlock i n inp) = ''tool_use''"

fun block_text :: "ContentBlock \<Rightarrow> string option" where
  "block_text (TextBlock t) = Some t"
| "block_text (ToolUseBlock i n inp) = None"

record MintResult =
  txHash :: string
  ipId :: string

record Memory =
  content_text :: string \<comment> \<open>\<^verbatim>\<open>_memory.content.text\<close>\<close>

record State =
  state_daily_messages :: "string list option" \<comment> \<open>\<^verbatim>\<open>_state.daily_messages\<close>\<close>

type_synonym env = "string \<Rightarrow> string option" \<comment> \<open>\<^verbatim>\<open>process.env\<close>\<close>

text \<open>
  \<^verbatim>\<open>HandlerCallback\<close>: the call \<^verbatim>\<open>_callback({ text: t })\<close> either throws (\<open>Inl\<close>) or returns
  a promise (\<open>Inr\<close>). The handler never awaits that promise and drops it, so what the
  promise does later cannot reach the handler.
\<close>

type_synonym HandlerCallback = "string \<Rightarrow> js_error + unit"

subsection \<open>Events and the world\<close>

datatype ('rp, 'au) event =
    Callback string
  | LoggerError string js_error
  | NewBlockchainService string string string bool
  | NewAudioService string
  | NewIPFSService string
  | RequestRandomParameters
  | NewAnthropic string
  | JsonStringifyPrompt "'rp PodcastPrompt"
  | MessagesCreate MessageCreateParams
  | GenerateAudio string
  | UploadAudioFile 'au
  | JsonStringify 'rp
  | UploadMetadata PodcastMetadata
  | UpdateTokenURI string
  | CallStoryProtocol string string

text \<open>
  \<open>'rp\<close> is the value of \<^verbatim>\<open>requestRandomParameters\<close> (typed \<^verbatim>\<open>any\<close> in the source),
  \<open>'au\<close> the value of \<^verbatim>\<open>generateAudio\<close>. \<^verbatim>\<open>extractMessages\<close> returns the batch or
  a falsy sentinel (\<open>None\<close>); an array, even an empty one, is truthy.
  \<^verbatim>\<open>JSON.stringify\<close> is applied to an object holding a value of type \<open>'rp\<close>, so it is a
  parameter too: it returns the text or raises (a cyclic value, a BigInt).
\<close>

record ('rp, 'au) world =
  extractMessages :: "string \<Rightarrow> string list option"
  newBlockchainService :: "string \<Rightarrow> string \<Rightarrow> string \<Rightarrow> bool \<Rightarrow> js_error + unit"
  newAudioService :: "string \<Rightarrow> js_error + unit"
  newIPFSService :: "string \<Rightarrow> js_error + unit"
  requestRandomParameters :: "js_error + 'rp"
  newAnthropic :: "string \<Rightarrow> js_error + unit"
  jsonStringifyPrompt :: "'rp PodcastPrompt \<Rightarrow> js_error + string"
  messagesCreate :: "MessageCreateParams \<Rightarrow> js_error + ContentBlock list"
  generateAudio :: "string \<Rightarrow> js_error + 'au"
  uploadAudioFile :: "'au \<Rightarrow> js_error + string"
  jsonStringify :: "'rp \<Rightarrow> js_error + string"
  uploadMetadata :: "PodcastMetadata \<Rightarrow> js_error + string"
  updateTokenURI :: "string \<Rightarrow> js_error + unit"
  callStoryProtocol :: "string \<Rightarrow> string \<Rightarrow> js_error + MintResult"

type_synonym ('ev, 'a) run = "'ev list \<times> (js_error + 'a)"

text \<open>
  \<open>call ev r k\<close>: the call recorded as \<open>ev\<close> settles as \<open>r\<close>; an error ends the run
  there, a value is passed to the rest \<open>k\<close>. \<open>emit ev m\<close> records \<open>ev\<close>, which cannot
  raise, and goes on with \<open>m\<close>. \<open>await m k\<close> runs \<open>m\<close> and passes its value to \<open>k\<close>.
  \<open>notify cb t m\<close> is the statement \<^verbatim>\<open>_callback({ text: t })\<close> followed by \<open>m\<close>: the call
  is recorded as \<open>Callback t\<close>; if the callback throws, the run ends there with its error.
\<close>

definition emit :: "'ev \<Rightarrow> ('ev, 'b) run \<Rightarrow> ('ev, 'b) run" where
  "emit ev m = (case m of (events, outcome) \<Rightarrow> (ev # events, outcome))"

definition call :: "'ev \<Rightarrow> js_error + 'a \<Rightarrow> ('a \<Rightarrow> ('ev, 'b) run) \<Rightarrow> ('ev, 'b) run" where
  "call ev r k = (case r of Inl e \<Rightarrow> ([ev], Inl e) | Inr a \<Rightarrow> emit ev (k a))"

definition await :: "('ev, 'a) run \<Rightarrow> ('a \<Rightarrow> ('ev, 'b) run) \<Rightarrow> ('ev, 'b) run" where
  "await m k =
     (case m of
        (events, Inl e) \<Rightarrow> (events, Inl e)
      | (events, Inr a) \<Rightarrow> (case k a of (events', outcome) \<Rightarrow> (events @ events', outcome)))"

definition notify ::
  "HandlerCallback \<Rightarrow> string \<Rightarrow> (('rp, 'au) event, 'b) run \<Rightarrow> (('rp, 'au) event, 'b) run" where
  "notify cb t m = call (Callback t) (cb t) (\<lambda>u. m)"

subsection \<open>\<^verbatim>\<open>generatePodcastContent\<close> (lines 135 to 156)\<close>

text \<open>
  \<^verbatim>\<open>Array.prototype.join\<close>: the elements are separated by \<open>sep\<close>; an undefined element
  (\<open>None\<close>) contributes the empty string.
\<close>

fun js_string :: "string option \<Rightarrow> string" where
  "js_string None = []"
| "js_string (Some s) = s"

fun join :: "string \<Rightarrow> string option list \<Rightarrow> string" where
  "join sep [] = []"
| "join sep [x] = js_string x"
| "join sep (x # y # ys) = js_string x @ sep @ join sep (y # ys)"

definition newline :: string where
  "newline = [CHR 0x0A]"

definition generatePodcastContent ::
  "('rp, 'au) world \<Rightarrow> string list \<Rightarrow> 'rp \<Rightarrow> string \<Rightarrow> (('rp, 'au) event, string) run" where
  "generatePodcastContent w msgs randomParams apiKey =
     call (NewAnthropic apiKey) (newAnthropic w apiKey) (\<lambda>anthropic.
     let prompt = \<lparr>
           instruction = ''Generate a podcast script based on the day's messages. Create natural speech without formatting.'',
           topic = ''Ethereum Denver 2025 daily podcast'',
           daily_messages = msgs,
           random_parameters = randomParams,
           duration = ''20 Seconds'',
           language = ''English'' \<rparr>
     in
     call (JsonStringifyPrompt prompt) (jsonStringifyPrompt w prompt) (\<lambda>prompt_json.
     let request = \<lparr>
           model = ''claude-3-haiku-20240307'',
           max_tokens = 1024,
           messages = [\<lparr> role = ''user'', content = prompt_json \<rparr>] \<rparr>
     in
     call (MessagesCreate request) (messagesCreate w request) (\<lambda>response.
     ([], Inr (join newline
                 (map block_text (filter (\<lambda>block. block_type block = ''text'') response)))))))"

subsection \<open>\<^verbatim>\<open>validate\<close> (lines 21 to 30)\<close>

text \<open>
  The assignment to \<^verbatim>\<open>_state.daily_messages\<close> mutates the caller's object: the model
  returns the state after the call beside the result.
\<close>

definition validate ::
  "('rp, 'au) world \<Rightarrow> Memory \<Rightarrow> State option \<Rightarrow> bool \<times> State option" where
  "validate w memory state =
     (case extractMessages w (content_text memory) of
        None \<Rightarrow> (False, state)
      | Some msgs \<Rightarrow>
          (case state of
             Some st \<Rightarrow> (True, Some (st\<lparr>state_daily_messages := Some msgs\<rparr>))
           | None \<Rightarrow> (False, None)))"

subsection \<open>\<^verbatim>\<open>handler\<close> (lines 32 to 109)\<close>

text \<open>
  \<open>falsy\<close> is the test \<^verbatim>\<open>!x\<close> on a value of \<^verbatim>\<open>process.env\<close>: true of an unset name and of
  the empty string. Past the guard of line 43 each value is a non-empty string;
  \<open>narrowed\<close> reads it.
\<close>

fun falsy :: "string option \<Rightarrow> bool" where
  "falsy None = True"
| "falsy (Some s) = (s = [])"

fun narrowed :: "string option \<Rightarrow> string" where
  "narrowed (Some s) = s"
| "narrowed None = []"

text \<open>
  The body of the \<^verbatim>\<open>try\<close> block, lines 49 to 102. An error raised by a call or thrown
  by the callback ends the body and is its outcome. Line 70 reads
  \<^verbatim>\<open>process.env.ANTHROPIC_API_KEY\<close> a second time; the environment is the same
  throughout a run.
\<close>

definition try_block ::
  "('rp, 'au) world \<Rightarrow> HandlerCallback \<Rightarrow> env \<Rightarrow> string list option \<Rightarrow> string \<Rightarrow> string \<Rightarrow> string \<Rightarrow> string
     \<Rightarrow> string \<Rightarrow> (('rp, 'au) event, bool) run" where
  "try_block w cb env msgs privateKey contractAddress contractAddressFlow xiApiKey pinataJwt =
     call (NewBlockchainService privateKey contractAddress contractAddressFlow False)
          (newBlockchainService w privateKey contractAddress contractAddressFlow False)
          (\<lambda>blockchainService.
     call (NewAudioService xiApiKey) (newAudioService w xiApiKey) (\<lambda>audioService.
     call (NewIPFSService pinataJwt) (newIPFSService w pinataJwt) (\<lambda>ipfsService.
     notify cb text_requesting (
     call RequestRandomParameters (requestRandomParameters w) (\<lambda>randomParams.
     notify cb text_generating (
     await (generatePodcastContent w
              (case msgs of Some ms \<Rightarrow> ms | None \<Rightarrow> [''Awesome messages!''])
              randomParams
              (narrowed (env ''ANTHROPIC_API_KEY''))) (\<lambda>script.
     notify cb text_converting (
     call (GenerateAudio script) (generateAudio w script) (\<lambda>audioPath.
     notify cb text_uploading (
     call (UploadAudioFile audioPath) (uploadAudioFile w audioPath) (\<lambda>audioHash.
     call (JsonStringify randomParams) (jsonStringify w randomParams) (\<lambda>params_json.
     let metadata = \<lparr>
           name = ''BuffiCast Podcast'',
           description = ''Podcast generated by BuffiCast with parameters: '' @ params_json,
           image_url = ''https://ipfs.io/ipfs/bafkreifqzkq7tzppc22fa2f52sg2cruvomne2tp34yhdnx3ub2xw24b52m'',
           external_url = ''https://ipfs.io/ipfs/'' @ audioHash \<rparr>
     in
     call (UploadMetadata metadata) (uploadMetadata w metadata) (\<lambda>metadataHash.
     notify cb text_updating (
     call (UpdateTokenURI (''https://ipfs.io/ipfs/'' @ metadataHash))
          (updateTokenURI w (''https://ipfs.io/ipfs/'' @ metadataHash)) (\<lambda>updated.
     notify cb text_minting (
     call (CallStoryProtocol audioHash metadataHash)
          (callStoryProtocol w audioHash metadataHash) (\<lambda>resp.
     notify cb (text_secured (txHash resp) (ipId resp)) (
     notify cb text_minted (
     ([], Inr True))))))))))))))))))))"

text \<open>
  The \<^verbatim>\<open>catch\<close> block, lines 104 to 108: the error is logged, the failure notice is handed
  to the callback, and \<^verbatim>\<open>false\<close> is returned. The call of the callback is not guarded:
  if it throws here, the handler's promise is rejected with that error.
\<close>

definition catch_block :: "HandlerCallback \<Rightarrow> js_error \<Rightarrow> (('rp, 'au) event, bool) run" where
  "catch_block cb error =
     emit (LoggerError ''Podcast Generation Error:'' error) (
     notify cb text_error (
     ([], Inr False)))"

text \<open>
  The handler. \<open>callback\<close> is the optional argument \<^verbatim>\<open>_callback\<close>, \<open>None\<close> when it is not
  given. The guard of line 33 and the warning of line 44 are outside the \<^verbatim>\<open>try\<close>: what is
  thrown there rejects the promise. The arguments \<^verbatim>\<open>_agent\<close> and \<^verbatim>\<open>_options\<close> are never
  used and are left out; \<^verbatim>\<open>_state\<close> is kept as an argument.
\<close>

definition handler ::
  "('rp, 'au) world \<Rightarrow> env \<Rightarrow> Memory \<Rightarrow> State option \<Rightarrow> HandlerCallback option
     \<Rightarrow> (('rp, 'au) event, bool) run" where
  "handler w env memory state callback =
     (case callback of
        None \<Rightarrow> ([], Inl (Error ''Callback is required''))
      | Some cb \<Rightarrow>
        let msgs = extractMessages w (content_text memory);
            privateKey = env ''EVM_PRIVATE_KEY'';
            contractAddress = env ''CONTRACT_ADDRESS'';
            contractAddressFlow = env ''CONTRACT_ADDRESS_FLOW'';
            apiKey = env ''ANTHROPIC_API_KEY'';
            xiApiKey = env ''ELEVENLABS_XI_API_KEY'';
            pinataJwt = env ''PINATA_JWT''
        in
        if falsy privateKey \<or> falsy contractAddress \<or> falsy contractAddressFlow
             \<or> falsy apiKey \<or> falsy xiApiKey \<or> falsy pinataJwt
        then notify cb text_missing_env ([], Inr False)
        else
          (case try_block w cb env msgs (narrowed privateKey) (narrowed contractAddress)
                  (narrowed contractAddressFlow) (narrowed xiApiKey) (narrowed pinataJwt) of
             (events, Inr result) \<Rightarrow> (events, Inr result)
           | (events, Inl error) \<Rightarrow>
               (case catch_block cb error of
                  (events', outcome) \<Rightarrow> (events @ events', outcome))))"

section \<open>Vocabulary of the properties\<close>

text \<open>The texts handed to the callback during a run, in order.\<close>

fun notifications :: "('rp, 'au) event list \<Rightarrow> string list" where
  "notifications [] = []"
| "notifications (Callback t # evs) = t # notifications evs"
| "notifications (ev # evs) = notifications evs"

text \<open>The message batches of the prompts serialised during a run, in order.\<close>

fun prompt_batches :: "('rp, 'au) event list \<Rightarrow> string list list" where
  "prompt_batches [] = []"
| "prompt_batches (JsonStringifyPrompt p # evs) = daily_messages p # prompt_batches evs"
| "prompt_batches (ev # evs) = prompt_batches evs"

definition config_keys :: "string list" where
  "config_keys =
     [''EVM_PRIVATE_KEY'', ''CONTRACT_ADDRESS'', ''CONTRACT_ADDRESS_FLOW'',
      ''ANTHROPIC_API_KEY'', ''ELEVENLABS_XI_API_KEY'', ''PINATA_JWT'']"

definition config_missing :: "env \<Rightarrow> bool" where
  "config_missing env \<longleftrightarrow> (\<exists>k \<in> set config_keys. falsy (env k))"

text \<open>
  \<open>raised w callback ev\<close> is the error with which the call recorded as \<open>ev\<close> ends in the
  world \<open>w\<close> and with the callback \<open>callback\<close>, if it ends with one. Writing to the logger
  raises nothing.
\<close>

fun thrown :: "js_error + 'a \<Rightarrow> js_error option" where
  "thrown (Inl e) = Some e"
| "thrown (Inr a) = None"

fun raised ::
  "('rp, 'au) world \<Rightarrow> HandlerCallback option \<Rightarrow> ('rp, 'au) event \<Rightarrow> js_error option" where
  "raised w None (Callback t) = None"
| "raised w (Some cb) (Callback t) = thrown (cb t)"
| "raised w callback (LoggerError m e) = None"
| "raised w callback (NewBlockchainService pk ca caf b) = thrown (newBlockchainService w pk ca caf b)"
| "raised w callback (NewAudioService k) = thrown (newAudioService w k)"
| "raised w callback (NewIPFSService k) = thrown (newIPFSService w k)"
| "raised w callback RequestRandomParameters = thrown (requestRandomParameters w)"
| "raised w callback (NewAnthropic k) = thrown (newAnthropic w k)"
| "raised w callback (JsonStringifyPrompt p) = thrown (jsonStringifyPrompt w p)"
| "raised w callback (MessagesCreate r) = thrown (messagesCreate w r)"
| "raised w callback (GenerateAudio s) = thrown (generateAudio w s)"
| "raised w callback (UploadAudioFile a) = thrown (uploadAudioFile w a)"
| "raised w callback (JsonStringify p) = thrown (jsonStringify w p)"
| "raised w callback (UploadMetadata m) = thrown (uploadMetadata w m)"
| "raised w callback (UpdateTokenURI u) = thrown (updateTokenURI w u)"
| "raised w callback (CallStoryProtocol a m) = thrown (callStoryProtocol w a m)"

text \<open>The two events of the \<^verbatim>\<open>catch\<close> block: the log line and the failure notice.\<close>

fun reporting :: "('rp, 'au) event \<Rightarrow> bool" where
  "reporting (LoggerError m e) = True"
| "reporting (Callback t) = (t = text_error)"
| "reporting ev = False"

text \<open>
  The events outside the \<^verbatim>\<open>try\<close> block: those of the \<^verbatim>\<open>catch\<close> block and the
  missing-configuration warning of line 44.
\<close>

fun outside_try :: "('rp, 'au) event \<Rightarrow> bool" where
  "outside_try (LoggerError m e) = True"
| "outside_try (Callback t) = (t = text_error \<or> t = text_missing_env)"
| "outside_try ev = False"

text \<open>
  How the handler settles once the \<^verbatim>\<open>catch\<close> block has run: with \<^verbatim>\<open>false\<close>, or rejected
  with the error the callback throws on the failure notice.
\<close>

definition settles_after_catch :: "HandlerCallback \<Rightarrow> js_error + bool" where
  "settles_after_catch cb = (case cb text_error of Inl e \<Rightarrow> Inl e | Inr u \<Rightarrow> Inr False)"

text \<open>
  The operations of the storage adapter and the two operations of the blockchain adapter
  that come after speech synthesis.
\<close>

fun downstream :: "('rp, 'au) event \<Rightarrow> bool" where
  "downstream (UploadAudioFile a) = True"
| "downstream (UploadMetadata m) = True"
| "downstream (UpdateTokenURI u) = True"
| "downstream (CallStoryProtocol a m) = True"
| "downstream ev = False"

text \<open>
  The script as the specification words it: the texts of the text blocks, in response
  order, joined with one newline between neighbours.
\<close>

fun text_segments :: "ContentBlock list \<Rightarrow> string list" where
  "text_segments [] = []"
| "text_segments (TextBlock t # blocks) = t # text_segments blocks"
| "text_segments (ToolUseBlock i n inp # blocks) = text_segments blocks"

definition newline_joined :: "string list \<Rightarrow> string" where
  "newline_joined segs =
     (case segs of [] \<Rightarrow> [] | s # rest \<Rightarrow> s @ concat (map (\<lambda>t. CHR 0x0A # t) rest))"

subsection \<open>Invariants of a run\<close>

text \<open>
  \<open>orderly w c m\<close>: the run \<open>m\<close> holds no event from outside the \<^verbatim>\<open>try\<close> block; if it
  ends with an error, its last event is the call that raised that error and no earlier
  call raised; if it ends with a value, no call raised.
\<close>

definition orderly ::
  "('rp, 'au) world \<Rightarrow> HandlerCallback option \<Rightarrow> (('rp, 'au) event, 'a) run \<Rightarrow> bool" where
  "orderly w c m \<longleftrightarrow>
     (\<forall>x \<in> set (fst m). \<not> outside_try x) \<and>
     (case snd m of
        Inl e \<Rightarrow>
          (\<exists>ys z. fst m = ys @ [z] \<and> raised w c z = Some e
             \<and> (\<forall>x \<in> set ys. raised w c x = None))
      | Inr a \<Rightarrow> (\<forall>x \<in> set (fst m). raised w c x = None))"

text \<open>
  \<open>preceded P h m\<close>: every event \<open>x\<close> of the run \<open>m\<close>, started after the events \<open>h\<close>,
  satisfies \<open>P\<close> of the events before it and of itself.
\<close>

definition preceded :: "('ev list \<Rightarrow> 'ev \<Rightarrow> bool) \<Rightarrow> 'ev list \<Rightarrow> ('ev, 'a) run \<Rightarrow> bool" where
  "preceded P h m \<longleftrightarrow> (\<forall>pre x post. fst m = pre @ x # post \<longrightarrow> P (h @ pre) x)"

text \<open>No storage or chain write comes before a call of \<^verbatim>\<open>generateAudio\<close>.\<close>

fun audio_first :: "('rp, 'au) event list \<Rightarrow> ('rp, 'au) event \<Rightarrow> bool" where
  "audio_first h (GenerateAudio s) = (\<forall>y \<in> set h. \<not> downstream y)"
| "audio_first h ev = True"

text \<open>
  The metadata handed to \<^verbatim>\<open>uploadMetadata\<close> is built from the text of the random
  parameters and from the identifier an earlier \<^verbatim>\<open>uploadAudioFile\<close> returned.
\<close>

fun metadata_built :: "('rp, 'au) world \<Rightarrow> ('rp, 'au) event list \<Rightarrow> ('rp, 'au) event \<Rightarrow> bool" where
  "metadata_built w h (UploadMetadata md) =
     (\<exists>rp pj au ah.
        requestRandomParameters w = Inr rp \<and> jsonStringify w rp = Inr pj
        \<and> UploadAudioFile au \<in> set h \<and> uploadAudioFile w au = Inr ah
        \<and> md = \<lparr> name = ''BuffiCast Podcast'',
                  description = ''Podcast generated by BuffiCast with parameters: '' @ pj,
                  image_url = ''https://ipfs.io/ipfs/bafkreifqzkq7tzppc22fa2f52sg2cruvomne2tp34yhdnx3ub2xw24b52m'',
                  external_url = ''https://ipfs.io/ipfs/'' @ ah \<rparr>)"
| "metadata_built w h ev = True"

text \<open>Every prompt serialised in a run carries the batch \<open>b\<close>.\<close>

fun batch_is :: "string list \<Rightarrow> ('rp, 'au) event list \<Rightarrow> ('rp, 'au) event \<Rightarrow> bool" where
  "batch_is b h (JsonStringifyPrompt p) = (daily_messages p = b)"
| "batch_is b h ev = True"

subsection \<open>Sample worlds\<close>

text \<open>
  A world in which every call succeeds, one in which speech synthesis is down, a callback
  that accepts every text, one that throws on every text and one that throws on the failure
  notice only, and two configurations: a complete one, and one without the storage key.
\<close>

definition text_gm :: string where
  "text_gm = ''say '' @ [CHR 0x22] @ ''gm'' @ [CHR 0x22]"

definition world_ok :: "(string, string) world" where
  "world_ok = \<lparr>
     extractMessages = (\<lambda>t. if t = text_gm then Some [''gm''] else None),
     newBlockchainService = (\<lambda>pk ca caf b. Inr ()),
     newAudioService = (\<lambda>k. Inr ()),
     newIPFSService = (\<lambda>k. Inr ()),
     requestRandomParameters = Inr ''seed'',
     newAnthropic = (\<lambda>k. Inr ()),
     jsonStringifyPrompt = (\<lambda>p. Inr (concat (daily_messages p) @ random_parameters p)),
     messagesCreate = (\<lambda>r. Inr [TextBlock ''Good morning'', ToolUseBlock ''t1'' ''search'' ''{}'',
                                 TextBlock ''Denver'']),
     generateAudio = (\<lambda>s. Inr ''podcast.mp3''),
     uploadAudioFile = (\<lambda>a. Inr ''QmAudio''),
     jsonStringify = (\<lambda>rp. Inr rp),
     uploadMetadata = (\<lambda>m. Inr ''QmMeta''),
     updateTokenURI = (\<lambda>u. Inr ()),
     callStoryProtocol = (\<lambda>a m. Inr \<lparr> txHash = ''0x1'', ipId = ''0x2'' \<rparr>) \<rparr>"

definition world_tts_down :: "(string, string) world" where
  "world_tts_down = world_ok \<lparr> generateAudio := (\<lambda>s. Inl (Error ''tts down'')) \<rparr>"

definition sink_ok :: HandlerCallback where
  "sink_ok t = Inr ()"

definition sink_closed :: HandlerCallback where
  "sink_closed t = Inl (Error ''sink closed'')"

definition sink_failing :: HandlerCallback where
  "sink_failing t = (if t = text_error then Inl (Error ''sink closed'') else Inr ())"

definition env_ok :: env where
  "env_ok k = (if k \<in> set config_keys then Some ''set'' else None)"

definition env_no_jwt :: env where
  "env_no_jwt = env_ok (''PINATA_JWT'' := None)"

definition memory_gm :: Memory where
  "memory_gm = \<lparr> content_text = text_gm \<rparr>"

definition memory_plain :: Memory where
  "memory_plain = \<lparr> content_text = ''hello'' \<rparr>"

definition state_stale :: State where
  "state_stale = \<lparr> state_daily_messages = Some [''stale''] \<rparr>"

text \<open>
  The prompt, the request and the metadata of the source as functions of their variable
  parts, and the events of the sample runs before and after the call of speech synthesis.
\<close>

definition prompt_of :: "string list \<Rightarrow> 'rp \<Rightarrow> 'rp PodcastPrompt" where
  "prompt_of msgs rp = \<lparr>
     instruction = ''Generate a podcast script based on the day's messages. Create natural speech without formatting.'',
     topic = ''Ethereum Denver 2025 daily podcast'',
     daily_messages = msgs,
     random_parameters = rp,
     duration = ''20 Seconds'',
     language = ''English'' \<rparr>"

definition request_of :: "string \<Rightarrow> MessageCreateParams" where
  "request_of prompt_json = \<lparr>
     model = ''claude-3-haiku-20240307'',
     max_tokens = 1024,
     messages = [\<lparr> role = ''user'', content = prompt_json \<rparr>] \<rparr>"

definition metadata_of :: "string \<Rightarrow> string \<Rightarrow> PodcastMetadata" where
  "metadata_of params_json audioHash = \<lparr>
     name = ''BuffiCast Podcast'',
     description = ''Podcast generated by BuffiCast with parameters: '' @ params_json,
     image_url = ''https://ipfs.io/ipfs/bafkreifqzkq7tzppc22fa2f52sg2cruvomne2tp34yhdnx3ub2xw24b52m'',
     external_url = ''https://ipfs.io/ipfs/'' @ audioHash \<rparr>"

definition events_until_speech :: "string list \<Rightarrow> (string, string) event list" where
  "events_until_speech batch =
     [NewBlockchainService ''set'' ''set'' ''set'' False, NewAudioService ''set'',
      NewIPFSService ''set'', Callback text_requesting, RequestRandomParameters,
      Callback text_generating, NewAnthropic ''set'', JsonStringifyPrompt (prompt_of batch ''seed''),
      MessagesCreate (request_of (concat batch @ ''seed'')), Callback text_converting]"

definition events_after_speech :: "(string, string) event list" where
  "events_after_speech =
     [Callback text_uploading, UploadAudioFile ''podcast.mp3'', JsonStringify ''seed'',
      UploadMetadata (metadata_of ''seed'' ''QmAudio''), Callback text_updating,
      UpdateTokenURI ''https://ipfs.io/ipfs/QmMeta'', Callback text_minting,
      CallStoryProtocol ''QmAudio'' ''QmMeta'', Callback (text_secured ''0x1'' ''0x2''),
      Callback text_minted]"

definition script_ok :: string where
  "script_ok = ''Good morning'' @ newline @ ''Denver''"

section \<open>Laws of the combinators\<close>

lemma emit_pair: "emit ev (events, outcome) = (ev # events, outcome)"
  by (simp add: emit_def)

lemma fst_emit: "fst (emit ev m) = ev # fst m"
  by (cases m) (simp add: emit_def)

lemma snd_emit: "snd (emit ev m) = snd m"
  by (cases m) (simp add: emit_def)

lemma call_Inl: "call ev (Inl e) k = ([ev], Inl e)"
  by (simp add: call_def)

lemma call_Inr: "call ev (Inr a) k = emit ev (k a)"
  by (simp add: call_def)

lemma await_Inl: "await (events, Inl e) k = (events, Inl e)"
  by (simp add: await_def)

lemma await_Inr: "await (events, Inr a) k = (events @ fst (k a), snd (k a))"
  by (cases "k a") (simp add: await_def)

lemma await_return: "await ([], Inr a) k = k a"
  by (simp add: await_Inr)

lemma await_emit: "await (emit ev m) k = emit ev (await m k)"
proof (cases m)
  case (Pair events outcome)
  then show ?thesis
    by (cases outcome) (simp_all add: emit_pair await_Inl await_Inr)
qed

lemma await_call: "await (call ev r f) k = call ev r (\<lambda>a. await (f a) k)"
  by (cases r) (simp_all add: call_Inl call_Inr await_Inl await_emit)

lemmas run_simps = emit_pair call_Inl call_Inr await_Inl await_Inr

section \<open>Runs stop at the first error\<close>

lemma orderly_return: "orderly w c ([], Inr a)"
  by (simp add: orderly_def)

lemma orderly_emit:
  assumes "raised w c ev = None" "\<not> outside_try ev" "orderly w c m"
  shows "orderly w c (emit ev m)"
proof (cases "snd m")
  case (Inl e)
  with assms(3) obtain ys z where "fst m = ys @ [z]" "raised w c z = Some e"
    "\<forall>x \<in> set ys. raised w c x = None"
    by (auto simp: orderly_def)
  then have "ev # fst m = (ev # ys) @ [z] \<and> raised w c z = Some e
      \<and> (\<forall>x \<in> set (ev # ys). raised w c x = None)"
    using assms(1) by simp
  then have "\<exists>ys' z. ev # fst m = ys' @ [z] \<and> raised w c z = Some e
      \<and> (\<forall>x \<in> set ys'. raised w c x = None)"
    by blast
  with Inl assms show ?thesis by (simp add: orderly_def fst_emit snd_emit)
next
  case (Inr a)
  with assms show ?thesis by (simp add: orderly_def fst_emit snd_emit)
qed

lemma orderly_call:
  assumes "raised w c ev = thrown r" "\<not> outside_try ev" "\<And>a. r = Inr a \<Longrightarrow> orderly w c (k a)"
  shows "orderly w c (call ev r k)"
proof (cases r)
  case (Inl e)
  then have "raised w c ev = Some e" using assms(1) by simp
  then have "\<exists>ys z. [ev] = ys @ [z] \<and> raised w c z = Some e
      \<and> (\<forall>x \<in> set ys. raised w c x = None)"
    by simp
  with Inl assms(2) show ?thesis by (simp add: orderly_def call_Inl)
next
  case (Inr a)
  then have "raised w c ev = None" using assms(1) by simp
  then have "orderly w c (emit ev (k a))"
    using assms(2) assms(3)[OF Inr] by (rule orderly_emit)
  with Inr show ?thesis by (simp add: call_Inr)
qed

lemma text_error_distinct:
  "text_requesting \<noteq> text_error" "text_generating \<noteq> text_error" "text_converting \<noteq> text_error"
  "text_uploading \<noteq> text_error" "text_updating \<noteq> text_error" "text_minting \<noteq> text_error"
  "text_secured tx ip \<noteq> text_error" "text_minted \<noteq> text_error" "text_missing_env \<noteq> text_error"
  by (simp_all add: text_requesting_def text_generating_def text_converting_def text_uploading_def
      text_updating_def text_minting_def text_secured_def text_minted_def text_missing_env_def
      text_error_def game_die_def writing_hand_def studio_microphone_def outbox_tray_def
      arrows_button_def link_sign_def sparkles_def cross_mark_def warning_sign_def)

lemma text_missing_env_distinct:
  "text_requesting \<noteq> text_missing_env" "text_generating \<noteq> text_missing_env"
  "text_converting \<noteq> text_missing_env" "text_uploading \<noteq> text_missing_env"
  "text_updating \<noteq> text_missing_env" "text_minting \<noteq> text_missing_env"
  "text_secured tx ip \<noteq> text_missing_env" "text_minted \<noteq> text_missing_env"
  by (simp_all add: text_requesting_def text_generating_def text_converting_def text_uploading_def
      text_updating_def text_minting_def text_secured_def text_minted_def text_missing_env_def
      game_die_def writing_hand_def studio_microphone_def outbox_tray_def
      arrows_button_def link_sign_def sparkles_def warning_sign_def)

lemma orderly_try_block: "orderly w (Some cb) (try_block w cb env msgs pk ca caf xi jwt)"
  unfolding try_block_def generatePodcastContent_def notify_def Let_def await_call await_return
  by (intro orderly_call orderly_return)
     (simp_all add: text_error_distinct text_missing_env_distinct)

lemma split_unique:
  assumes "ys @ z # zs = pre @ ev # post" "\<forall>x \<in> set ys. \<not> P x" "\<forall>x \<in> set zs. \<not> P x" "P ev"
  shows "pre = ys \<and> ev = z \<and> post = zs"
  using assms
proof (induction ys arbitrary: pre)
  case Nil
  then show ?case by (cases pre) auto
next
  case (Cons y ys)
  then show ?case by (cases pre) auto
qed

section \<open>Properties of every event, given the events before it\<close>

lemma preceded_return: "preceded P h ([], r)"
  by (simp add: preceded_def)

lemma preceded_emit:
  assumes "P h ev" "preceded P (h @ [ev]) m"
  shows "preceded P h (emit ev m)"
  unfolding preceded_def fst_emit
proof (intro allI impI)
  fix pre x post
  assume eq: "ev # fst m = pre @ x # post"
  show "P (h @ pre) x"
  proof (cases pre)
    case Nil
    with eq assms(1) show ?thesis by simp
  next
    case (Cons y pre')
    with eq have "y = ev" "fst m = pre' @ x # post" by simp_all
    with assms(2) have "P ((h @ [ev]) @ pre') x" unfolding preceded_def by blast
    with Cons \<open>y = ev\<close> show ?thesis by simp
  qed
qed

lemma preceded_call:
  assumes "P h ev" "\<And>a. r = Inr a \<Longrightarrow> preceded P (h @ [ev]) (k a)"
  shows "preceded P h (call ev r k)"
proof (cases r)
  case (Inl e)
  have "preceded P h (emit ev ([], Inl e))"
    using assms(1) by (intro preceded_emit preceded_return)
  with Inl show ?thesis by (simp add: call_Inl emit_pair)
next
  case (Inr a)
  with assms show ?thesis by (simp add: call_Inr preceded_emit)
qed

section \<open>The handler around the try block\<close>

lemma catch_block_run:
  "catch_block cb e =
     ([LoggerError ''Podcast Generation Error:'' e, Callback text_error], settles_after_catch cb)"
  by (cases "cb text_error")
     (simp_all add: catch_block_def notify_def settles_after_catch_def run_simps)

lemma warning_run:
  "notify cb text_missing_env ([], Inr False) =
     ([Callback text_missing_env],
      case cb text_missing_env of Inl e \<Rightarrow> Inl e | Inr u \<Rightarrow> Inr False)"
  by (cases "cb text_missing_env") (simp_all add: notify_def run_simps)

lemma handler_cases:
  "handler w env memory state callback =
     (case callback of
        None \<Rightarrow> ([], Inl (Error ''Callback is required''))
      | Some cb \<Rightarrow>
          if config_missing env
          then ([Callback text_missing_env],
                case cb text_missing_env of Inl e \<Rightarrow> Inl e | Inr u \<Rightarrow> Inr False)
          else (case try_block w cb env (extractMessages w (content_text memory))
                (narrowed (env ''EVM_PRIVATE_KEY'')) (narrowed (env ''CONTRACT_ADDRESS''))
                (narrowed (env ''CONTRACT_ADDRESS_FLOW'')) (narrowed (env ''ELEVENLABS_XI_API_KEY''))
                (narrowed (env ''PINATA_JWT'')) of
              (events, Inr result) \<Rightarrow> (events, Inr result)
            | (events, Inl error) \<Rightarrow>
                (events @ [LoggerError ''Podcast Generation Error:'' error, Callback text_error],
                 settles_after_catch cb)))"
  by (simp add: handler_def config_missing_def config_keys_def Let_def catch_block_run
      warning_run split: option.splits)

lemma handler_after_raise:
  assumes tr: "fst (handler w env memory state callback) = pre @ ev # post"
    and ev: "raised w callback ev = Some e" "\<not> outside_try ev"
  shows "post = [LoggerError ''Podcast Generation Error:'' e, Callback text_error]
       \<and> (\<exists>cb. callback = Some cb
             \<and> snd (handler w env memory state callback) = settles_after_catch cb)
       \<and> (\<forall>x \<in> set pre. raised w callback x = None \<and> \<not> outside_try x)"
proof -
  obtain cb where cb: "callback = Some cb"
    using tr by (cases callback) (simp_all add: handler_cases)
  define b where "b = try_block w cb env (extractMessages w (content_text memory))
                (narrowed (env ''EVM_PRIVATE_KEY'')) (narrowed (env ''CONTRACT_ADDRESS''))
                (narrowed (env ''CONTRACT_ADDRESS_FLOW'')) (narrowed (env ''ELEVENLABS_XI_API_KEY''))
                (narrowed (env ''PINATA_JWT''))"
  have ob: "orderly w callback b" unfolding b_def cb by (rule orderly_try_block)
  have h: "handler w env memory state callback =
     (if config_missing env
      then ([Callback text_missing_env],
            case cb text_missing_env of Inl e \<Rightarrow> Inl e | Inr u \<Rightarrow> Inr False)
      else (case b of (events, Inr result) \<Rightarrow> (events, Inr result)
            | (events, Inl error) \<Rightarrow>
                (events @ [LoggerError ''Podcast Generation Error:'' error, Callback text_error],
                 settles_after_catch cb)))"
    unfolding b_def by (simp add: handler_cases cb)
  have cfg: "\<not> config_missing env"
  proof
    assume "config_missing env"
    with h tr have "[Callback text_missing_env] = pre @ ev # post" by simp
    then have "ev = Callback text_missing_env" by (cases pre) simp_all
    with ev(2) show False by simp
  qed
  obtain events outcome where bp: "b = (events, outcome)" by (cases b)
  show ?thesis
  proof (cases outcome)
    case (Inr res)
    with cfg h tr bp have "events = pre @ ev # post" by simp
    then have "ev \<in> set (fst b)" using bp by simp
    with ob Inr bp have "raised w callback ev = None" by (simp add: orderly_def)
    with ev show ?thesis by simp
  next
    case (Inl e')
    with ob bp obtain ys z where b: "events = ys @ [z]" and z: "raised w callback z = Some e'"
      and ys: "\<forall>x \<in> set ys. raised w callback x = None"
      by (auto simp: orderly_def)
    have nr: "\<forall>x \<in> set events. \<not> outside_try x" using ob bp by (simp add: orderly_def)
    let ?P = "\<lambda>x. raised w callback x \<noteq> None \<and> \<not> outside_try x"
    from cfg h tr Inl b bp
    have "ys @ z # [LoggerError ''Podcast Generation Error:'' e', Callback text_error]
        = pre @ ev # post"
      by simp
    moreover have "\<forall>x \<in> set ys. \<not> ?P x" using ys by simp
    moreover have "\<forall>x \<in> set [LoggerError ''Podcast Generation Error:'' e', Callback text_error].
        \<not> ?P x" by simp
    moreover have "?P ev" using ev by simp
    ultimately have s: "pre = ys \<and> ev = z
        \<and> post = [LoggerError ''Podcast Generation Error:'' e', Callback text_error]"
      by (rule split_unique)
    with z ev have "e' = e" by simp
    with s ys nr b cb cfg h Inl bp show ?thesis by simp
  qed
qed

lemma preceded_append:
  assumes "preceded P h (xs, r)" "preceded P (h @ xs) (ys, r')"
  shows "preceded P h (xs @ ys, r'')"
  unfolding preceded_def
proof (intro allI impI)
  fix pre x post
  assume "fst (xs @ ys, r'') = pre @ x # post"
  then have "xs @ ys = pre @ x # post" by simp
  then obtain us where "(xs = pre @ us \<and> us @ ys = x # post) \<or> (xs @ us = pre \<and> ys = us @ x # post)"
    unfolding append_eq_append_conv2 by blast
  then show "P (h @ pre) x"
  proof
    assume a: "xs = pre @ us \<and> us @ ys = x # post"
    show ?thesis
    proof (cases us)
      case Nil
      with a have "fst (ys, r') = [] @ x # post" "xs = pre" by simp_all
      with assms(2) have "P ((h @ xs) @ []) x" unfolding preceded_def by blast
      with \<open>xs = pre\<close> show ?thesis by simp
    next
      case (Cons u us')
      with a have "fst (xs, r) = pre @ x # us'" by simp
      with assms(1) show ?thesis unfolding preceded_def by blast
    qed
  next
    assume a: "xs @ us = pre \<and> ys = us @ x # post"
    then have "fst (ys, r') = us @ x # post" by simp
    with assms(2) have "P ((h @ xs) @ us) x" unfolding preceded_def by blast
    with a show ?thesis by auto
  qed
qed

lemma preceded_handler:
  assumes body: "\<And>cb pk ca caf xi jwt.
      preceded P [] (try_block w cb env (extractMessages w (content_text memory)) pk ca caf xi jwt)"
    and "\<And>h m e. P h (LoggerError m e)" "\<And>h t. P h (Callback t)"
  shows "preceded P [] (handler w env memory state callback)"
proof (cases callback)
  case None
  then show ?thesis by (simp add: handler_cases preceded_return)
next
  case (Some cb)
  define b where "b = try_block w cb env (extractMessages w (content_text memory))
                (narrowed (env ''EVM_PRIVATE_KEY'')) (narrowed (env ''CONTRACT_ADDRESS''))
                (narrowed (env ''CONTRACT_ADDRESS_FLOW'')) (narrowed (env ''ELEVENLABS_XI_API_KEY''))
                (narrowed (env ''PINATA_JWT''))"
  have pb: "preceded P [] b" unfolding b_def by (rule body)
  have h: "handler w env memory state callback =
     (if config_missing env
      then ([Callback text_missing_env],
            case cb text_missing_env of Inl e \<Rightarrow> Inl e | Inr u \<Rightarrow> Inr False)
      else (case b of (events, Inr result) \<Rightarrow> (events, Inr result)
            | (events, Inl error) \<Rightarrow>
                (events @ [LoggerError ''Podcast Generation Error:'' error, Callback text_error],
                 settles_after_catch cb)))"
    unfolding b_def by (simp add: handler_cases Some)
  obtain events outcome where bp: "b = (events, outcome)" by (cases b)
  have warn: "preceded P [] ([Callback text_missing_env], r)" for r :: "js_error + bool"
    using preceded_emit[of P "[]" "Callback text_missing_env" "([], r)"] assms(3)
    by (simp add: preceded_return emit_pair)
  show ?thesis
  proof (cases outcome)
    case (Inr res)
    with h bp pb warn show ?thesis by (simp add: preceded_return)
  next
    case (Inl e)
    have "preceded P ([] @ events)
            (emit (LoggerError ''Podcast Generation Error:'' e)
               (emit (Callback text_error) ([], settles_after_catch cb)))"
      by (intro preceded_emit preceded_return assms(2,3))
    then have "preceded P ([] @ events)
        ([LoggerError ''Podcast Generation Error:'' e, Callback text_error], settles_after_catch cb)"
      by (simp add: emit_pair)
    with pb bp have "preceded P []
        (events @ [LoggerError ''Podcast Generation Error:'' e, Callback text_error],
         settles_after_catch cb)"
      by (intro preceded_append[where r = outcome and r' = "settles_after_catch cb"]) simp_all
    with h bp Inl warn show ?thesis by (simp add: preceded_return)
  qed
qed

lemma preceded_mem:
  assumes "preceded P [] m" "x \<in> set (fst m)"
  shows "\<exists>pre post. fst m = pre @ x # post \<and> P pre x"
proof -
  from assms(2) obtain pre post where "fst m = pre @ x # post" by (auto dest: split_list)
  moreover with assms(1) have "P ([] @ pre) x" unfolding preceded_def by blast
  ultimately show ?thesis by auto
qed

lemma audio_first_try_block: "preceded audio_first [] (try_block w cb env msgs pk ca caf xi jwt)"
  unfolding try_block_def generatePodcastContent_def notify_def Let_def await_call await_return
  by (intro preceded_call preceded_return) simp_all

lemma metadata_built_try_block: "preceded (metadata_built w) [] (try_block w cb env msgs pk ca caf xi jwt)"
  unfolding try_block_def generatePodcastContent_def notify_def Let_def await_call await_return
  by (intro preceded_call preceded_return) simp_all

lemma batch_is_try_block:
  "preceded (batch_is (case msgs of Some ms \<Rightarrow> ms | None \<Rightarrow> [''Awesome messages!''])) []
     (try_block w cb env msgs pk ca caf xi jwt)"
  unfolding try_block_def generatePodcastContent_def notify_def Let_def await_call await_return
  by (intro preceded_call preceded_return) simp_all

section \<open>The sample runs\<close>

lemmas sample_defs = world_ok_def world_tts_down_def sink_ok_def sink_closed_def
  env_ok_def env_no_jwt_def config_keys_def
  text_gm_def memory_gm_def memory_plain_def prompt_of_def request_of_def metadata_of_def
  events_until_speech_def events_after_speech_def script_ok_def

lemmas handler_unfold = handler_def try_block_def catch_block_def generatePodcastContent_def
  notify_def Let_def run_simps

lemma run_ok:
  "handler world_ok env_ok memory_gm state (Some sink_ok) =
     (events_until_speech [''gm''] @ GenerateAudio script_ok # events_after_speech, Inr True)"
  by (simp add: handler_unfold sample_defs)


lemma run_tts_down:
  "handler world_tts_down env_ok memory_gm state (Some sink_ok) =
     (events_until_speech [''gm''] @ GenerateAudio script_ok #
        [LoggerError ''Podcast Generation Error:'' (Error ''tts down''), Callback text_error],
      Inr False)"
  by (simp add: handler_unfold sample_defs)

lemma run_tts_down_sink_failing:
  "handler world_tts_down env_ok memory_gm state (Some sink_failing) =
     (events_until_speech [''gm''] @ GenerateAudio script_ok #
        [LoggerError ''Podcast Generation Error:'' (Error ''tts down''), Callback text_error],
      Inl (Error ''sink closed''))"
  by (simp add: handler_unfold sample_defs sink_failing_def text_error_distinct)

lemma run_sink_closed:
  "handler world_ok env_ok memory_gm state (Some sink_closed) =
     ([NewBlockchainService ''set'' ''set'' ''set'' False, NewAudioService ''set'',
       NewIPFSService ''set'', Callback text_requesting,
       LoggerError ''Podcast Generation Error:'' (Error ''sink closed''), Callback text_error],
      Inl (Error ''sink closed''))"
  by (simp add: handler_unfold sample_defs)

lemma run_no_jwt_sink_closed:
  "handler world_ok env_no_jwt memory_gm state (Some sink_closed) =
     ([Callback text_missing_env], Inl (Error ''sink closed''))"
  by (simp add: handler_unfold sample_defs)

lemma content_ok:
  "generatePodcastContent world_ok batch ''seed'' ''set'' =
     ([NewAnthropic ''set'', JsonStringifyPrompt (prompt_of batch ''seed''),
       MessagesCreate (request_of (concat batch @ ''seed''))], Inr script_ok)"
  by (simp add: generatePodcastContent_def Let_def run_simps sample_defs)

section \<open>Helper facts\<close>

lemma notifications_append: "notifications (xs @ ys) = notifications xs @ notifications ys"
  by (induction xs rule: notifications.induct) simp_all

lemma handler_ignores_state:
  "handler w env memory state callback = handler w env memory state' callback"
  by (simp add: handler_def)

lemma batch_is_any_history: "batch_is b h x \<Longrightarrow> batch_is b h' x"
  by (cases x) simp_all

lemma prompt_batches_all:
  "\<forall>x \<in> set evs. batch_is b [] x \<Longrightarrow> \<forall>c \<in> set (prompt_batches evs). c = b"
  by (induction evs rule: prompt_batches.induct) simp_all

lemma handler_batches:
  "\<forall>c \<in> set (prompt_batches (fst (handler w env memory state callback))).
     c = (case extractMessages w (content_text memory) of
            Some ms \<Rightarrow> ms | None \<Rightarrow> [''Awesome messages!''])"
proof -
  define b where "b = (case extractMessages w (content_text memory) of
              Some ms \<Rightarrow> ms | None \<Rightarrow> [''Awesome messages!''])"
  have p: "preceded (batch_is b) [] (handler w env memory state callback)"
    unfolding b_def by (rule preceded_handler) (simp_all add: batch_is_try_block)
  have "\<forall>x \<in> set (fst (handler w env memory state callback)). batch_is b [] x"
  proof
    fix x assume "x \<in> set (fst (handler w env memory state callback))"
    with p obtain pre where "batch_is b pre x" by (auto dest: preceded_mem)
    then show "batch_is b [] x" by (rule batch_is_any_history)
  qed
  then show ?thesis unfolding b_def by (rule prompt_batches_all)
qed

lemma join_newline_Some: "join newline (map Some segs) = newline_joined segs"
proof (induction segs)
  case Nil
  then show ?case by (simp add: newline_joined_def)
next
  case (Cons s segs)
  then show ?case by (cases segs) (simp_all add: newline_joined_def newline_def)
qed

lemma text_blocks_segments:
  "map block_text (filter (\<lambda>block. block_type block = ''text'') blocks) = map Some (text_segments blocks)"
  by (induction blocks rule: text_segments.induct) simp_all

lemma script_of_blocks:
  "join newline (map block_text (filter (\<lambda>block. block_type block = ''text'') blocks))
     = newline_joined (text_segments blocks)"
  by (simp only: text_blocks_segments join_newline_Some)

lemma generatePodcastContent_cases:
  "generatePodcastContent w msgs rp k =
     (case newAnthropic w k of
        Inl e \<Rightarrow> ([NewAnthropic k], Inl e)
      | Inr anthropic \<Rightarrow>
          (case jsonStringifyPrompt w (prompt_of msgs rp) of
             Inl e \<Rightarrow> ([NewAnthropic k, JsonStringifyPrompt (prompt_of msgs rp)], Inl e)
           | Inr pj \<Rightarrow>
               (case messagesCreate w (request_of pj) of
                  Inl e \<Rightarrow> ([NewAnthropic k, JsonStringifyPrompt (prompt_of msgs rp),
                             MessagesCreate (request_of pj)], Inl e)
                | Inr blocks \<Rightarrow> ([NewAnthropic k, JsonStringifyPrompt (prompt_of msgs rp),
                             MessagesCreate (request_of pj)],
                             Inr (newline_joined (text_segments blocks))))))"
  by (simp add: generatePodcastContent_def Let_def run_simps prompt_of_def request_of_def
      script_of_blocks split: sum.splits)



section \<open>The claims\<close>

text \<open>
  C1, as stated, fails, on two counts. In the run of the sample world with a callback that
  accepts every text, where every call succeeds and \<^verbatim>\<open>callStoryProtocol\<close> returns the
  transaction hash \<open>0x1\<close> and the IP id \<open>0x2\<close>, eight notifications are emitted, not seven,
  and the final one is the fixed closing text, which holds neither the hash nor the id;
  they are in the one before it. In the run of the same world with a callback that throws,
  every adapter call would succeed, yet the first notification is followed by the failure
  notice and the handler's promise is rejected.
\<close>

theorem success_run_final_notice_counterexample:
  "notifications (fst (handler world_ok env_ok memory_gm None (Some sink_ok))) =
     [text_requesting, text_generating, text_converting, text_uploading, text_updating,
      text_minting, text_secured ''0x1'' ''0x2'', text_minted]
   \<and> \<not> sublist ''0x1'' text_minted \<and> \<not> sublist ''0x2'' text_minted
   \<and> notifications (fst (handler world_ok env_ok memory_gm None (Some sink_closed))) =
       [text_requesting, text_error]
   \<and> snd (handler world_ok env_ok memory_gm None (Some sink_closed)) = Inl (Error ''sink closed'')"
proof -
  have "CHR ''x'' \<notin> set text_minted"
    by (simp add: text_minted_def sparkles_def party_popper_def)
  then have "\<not> sublist ''0x1'' text_minted" "\<not> sublist ''0x2'' text_minted"
    by (auto dest: set_mono_sublist)
  then show ?thesis
    by (simp add: run_ok run_sink_closed events_until_speech_def events_after_speech_def)
qed

text \<open>
  C1, amended. In every run with a callback that accepts each of the eight notifications
  without throwing, in which the six configuration values are present and not empty, the
  three services are constructed, and \<^verbatim>\<open>requestRandomParameters\<close>, the language-model
  call, \<^verbatim>\<open>generateAudio\<close>, \<^verbatim>\<open>uploadAudioFile\<close>, the serialisation of the random
  parameters, \<^verbatim>\<open>uploadMetadata\<close>, \<^verbatim>\<open>updateTokenURI\<close> and \<^verbatim>\<open>callStoryProtocol\<close> succeed,
  the handler emits exactly eight notifications in this order: requesting randomness,
  generating content, converting speech, uploading audio, updating the NFT metadata,
  minting, the notice that embeds the transaction hash and the IP id of the MintResult, and
  last a fixed closing notice; and it returns \<^verbatim>\<open>true\<close>.
\<close>

theorem success_run_notifications:
  assumes "callback = Some cb"
    and "\<forall>t \<in> set [text_requesting, text_generating, text_converting, text_uploading,
            text_updating, text_minting, text_secured (txHash resp) (ipId resp), text_minted].
          cb t = Inr ()"
    and "env ''EVM_PRIVATE_KEY'' = Some pk" "pk \<noteq> []"
    and "env ''CONTRACT_ADDRESS'' = Some ca" "ca \<noteq> []"
    and "env ''CONTRACT_ADDRESS_FLOW'' = Some caf" "caf \<noteq> []"
    and "env ''ANTHROPIC_API_KEY'' = Some ak" "ak \<noteq> []"
    and "env ''ELEVENLABS_XI_API_KEY'' = Some xi" "xi \<noteq> []"
    and "env ''PINATA_JWT'' = Some jwt" "jwt \<noteq> []"
    and "newBlockchainService w pk ca caf False = Inr ()"
    and "newAudioService w xi = Inr ()"
    and "newIPFSService w jwt = Inr ()"
    and "requestRandomParameters w = Inr rp"
    and g: "snd (generatePodcastContent w
           (case extractMessages w (content_text memory) of
              Some ms \<Rightarrow> ms | None \<Rightarrow> [''Awesome messages!''])
           rp ak) = Inr script"
    and "generateAudio w script = Inr au"
    and "uploadAudioFile w au = Inr ah"
    and "jsonStringify w rp = Inr pj"
    and "uploadMetadata w (metadata_of pj ah) = Inr mh"
    and "updateTokenURI w (''https://ipfs.io/ipfs/'' @ mh) = Inr ()"
    and "callStoryProtocol w ah mh = Inr resp"
  shows "notifications (fst (handler w env memory state callback)) =
           [text_requesting, text_generating, text_converting, text_uploading, text_updating,
            text_minting, text_secured (txHash resp) (ipId resp), text_minted]
         \<and> snd (handler w env memory state callback) = Inr True"
proof -
  let ?g = "generatePodcastContent w
           (case extractMessages w (content_text memory) of
              Some ms \<Rightarrow> ms | None \<Rightarrow> [''Awesome messages!''])
           rp ak"
  obtain gev where gp: "?g = (gev, Inr script)"
    using g by (cases ?g) simp
  have quiet: "notifications gev = []"
    using gp unfolding generatePodcastContent_cases
    by (auto split: sum.splits)
  show ?thesis
    using assms gp quiet
    by (simp add: handler_def try_block_def notify_def Let_def run_simps metadata_of_def
        notifications_append)
qed

theorem success_run_notifications_witness:
  "notifications (fst (handler world_ok env_ok memory_gm None (Some sink_ok))) =
     [text_requesting, text_generating, text_converting, text_uploading, text_updating,
      text_minting, text_secured ''0x1'' ''0x2'', text_minted]
   \<and> snd (handler world_ok env_ok memory_gm None (Some sink_ok)) = Inr True"
  using success_run_notifications [of "Some sink_ok" sink_ok "\<lparr> txHash = ''0x1'', ipId = ''0x2'' \<rparr>"
      env_ok "''set''" "''set''" "''set''" "''set''" "''set''" "''set''" world_ok "''seed''"
      memory_gm script_ok "''podcast.mp3''" "''QmAudio''" "''seed''" "''QmMeta''" None]
  by (simp add: content_ok) (simp add: sample_defs)

text \<open>
  C2, as stated, fails: in the sample world where speech synthesis is down, with a callback
  that throws on the failure notice, the error of \<^verbatim>\<open>generateAudio\<close> is caught and logged
  and the failure notice is handed to the callback, but the handler does not return
  \<^verbatim>\<open>false\<close>: the call of line 106 is not guarded, and the promise is rejected with the
  callback's error.
\<close>

theorem failure_notice_throws_counterexample:
  "raised world_tts_down (Some sink_failing) (GenerateAudio script_ok) = Some (Error ''tts down'')
   \<and> fst (handler world_tts_down env_ok memory_gm None (Some sink_failing)) =
       events_until_speech [''gm''] @ GenerateAudio script_ok #
         [LoggerError ''Podcast Generation Error:'' (Error ''tts down''), Callback text_error]
   \<and> snd (handler world_tts_down env_ok memory_gm None (Some sink_failing))
       = Inl (Error ''sink closed'')"
  by (simp add: run_tts_down_sink_failing) (simp add: world_tts_down_def)

text \<open>
  C2, amended. Whenever a step inside the \<^verbatim>\<open>try\<close> block raises an error \<open>e\<close> (any call
  from the construction of the services to \<^verbatim>\<open>callStoryProtocol\<close>, or the callback throwing
  on one of the progress notifications between them), the handler catches it: the events
  after the failing step are exactly the log line with \<open>e\<close> and the generic failure
  notice, so no further step runs; the failure notice is emitted exactly once in the run;
  no earlier step raised, and before the \<^verbatim>\<open>catch\<close> block nothing was logged. The handler
  returns \<^verbatim>\<open>false\<close>, unless the callback throws on the failure notice: then the promise is
  rejected with the error the callback threw.
\<close>

theorem raised_error_is_caught:
  assumes "fst (handler w env memory state callback) = pre @ ev # post"
    and "raised w callback ev = Some e" and "\<not> outside_try ev"
  shows "post = [LoggerError ''Podcast Generation Error:'' e, Callback text_error]
       \<and> (\<exists>cb. callback = Some cb
             \<and> snd (handler w env memory state callback)
                 = (case cb text_error of Inl e' \<Rightarrow> Inl e' | Inr u \<Rightarrow> Inr False))
       \<and> count_list (fst (handler w env memory state callback)) (Callback text_error) = 1
       \<and> (\<forall>x \<in> set pre. raised w callback x = None)
       \<and> (\<forall>x \<in> set (pre @ [ev]). \<not> reporting x)"
proof -
  note h = handler_after_raise [OF assms]
  have nr: "\<not> reporting x" if "\<not> outside_try x" for x :: "('a, 'b) event"
    using that by (cases x) simp_all
  have "Callback text_error \<notin> set pre"
  proof
    assume "Callback text_error \<in> set pre"
    with h have "\<not> outside_try (Callback text_error :: ('a, 'b) event)" by blast
    then show False by simp
  qed
  then have "count_list pre (Callback text_error) = 0" by (simp add: count_list_0_iff)
  moreover have "ev \<noteq> Callback text_error" using assms(3) by auto
  ultimately have "count_list (pre @ ev # post) (Callback text_error) = 1"
    using h by simp
  with h assms(1,3) nr show ?thesis by (simp add: settles_after_catch_def)
qed

theorem raised_error_is_caught_witness:
  "raised world_tts_down (Some sink_ok) (GenerateAudio script_ok) = Some (Error ''tts down'')
   \<and> fst (handler world_tts_down env_ok memory_gm None (Some sink_ok)) =
       events_until_speech [''gm''] @ GenerateAudio script_ok #
         [LoggerError ''Podcast Generation Error:'' (Error ''tts down''), Callback text_error]
   \<and> snd (handler world_tts_down env_ok memory_gm None (Some sink_ok)) = Inr False
   \<and> count_list (fst (handler world_tts_down env_ok memory_gm None (Some sink_ok)))
       (Callback text_error) = 1"
  using raised_error_is_caught [of world_tts_down env_ok memory_gm None "Some sink_ok"
      "events_until_speech [''gm'']" "GenerateAudio script_ok"
      "[LoggerError ''Podcast Generation Error:'' (Error ''tts down''), Callback text_error]"
      "Error ''tts down''"]
  by (simp add: run_tts_down) (simp add: world_tts_down_def)

text \<open>
  C3, as stated, fails, on two counts. In a run without a callback in which the storage key
  is absent, the handler emits no warning and does not return \<^verbatim>\<open>false\<close>; it throws. In a
  run with a callback that throws, the warning is handed to the callback and nothing else
  happens, but line 44 is outside the \<^verbatim>\<open>try\<close> block: the promise is rejected with the
  callback's error.
\<close>

theorem missing_config_without_callback_counterexample:
  "env_no_jwt ''PINATA_JWT'' = None
   \<and> notifications (fst (handler world_ok env_no_jwt memory_gm None None)) = []
   \<and> snd (handler world_ok env_no_jwt memory_gm None None) = Inl (Error ''Callback is required'')
   \<and> fst (handler world_ok env_no_jwt memory_gm None (Some sink_closed))
       = [Callback text_missing_env]
   \<and> snd (handler world_ok env_no_jwt memory_gm None (Some sink_closed))
       = Inl (Error ''sink closed'')"
proof -
  have "handler world_ok env_no_jwt memory_gm None None
      = (([], Inl (Error ''Callback is required'')) :: ((string, string) event, bool) run)"
    by (simp add: handler_def)
  moreover have "env_no_jwt ''PINATA_JWT'' = None"
    by (simp add: env_no_jwt_def)
  ultimately show ?thesis
    by (simp add: run_no_jwt_sink_closed)
qed

text \<open>
  C3, amended. In every run with a callback in which at least one of the six configuration
  values is absent, the run consists of exactly one event, the missing-configuration
  warning handed to the callback: no call of any adapter, no log line. The handler returns
  \<^verbatim>\<open>false\<close>, unless the callback throws on the warning: then the promise is rejected with
  the error the callback threw.
\<close>

theorem missing_config_warning:
  assumes "callback = Some cb" and "k \<in> set config_keys" and "env k = None"
  shows "fst (handler w env memory state callback) = [Callback text_missing_env]
       \<and> snd (handler w env memory state callback)
           = (case cb text_missing_env of Inl e \<Rightarrow> Inl e | Inr u \<Rightarrow> Inr False)"
proof -
  have "falsy (env k)" using assms(3) by simp
  with assms(2) have "config_missing env" unfolding config_missing_def by blast
  with assms(1) show ?thesis by (simp add: handler_cases)
qed

theorem missing_config_warning_witness:
  "''PINATA_JWT'' \<in> set config_keys \<and> env_no_jwt ''PINATA_JWT'' = None
   \<and> fst (handler world_ok env_no_jwt memory_gm None (Some sink_ok)) = [Callback text_missing_env]
   \<and> snd (handler world_ok env_no_jwt memory_gm None (Some sink_ok)) = Inr False"
  using missing_config_warning [of "Some sink_ok" sink_ok "''PINATA_JWT''" env_no_jwt world_ok
      memory_gm None]
  by (simp add: config_keys_def env_no_jwt_def sink_ok_def)

text \<open>
  C4. In every run in which the call of \<^verbatim>\<open>generateAudio\<close> raises (it is called only once
  the language-model call has returned its script), none of \<^verbatim>\<open>uploadAudioFile\<close>,
  \<^verbatim>\<open>uploadMetadata\<close>, \<^verbatim>\<open>updateTokenURI\<close> and \<^verbatim>\<open>callStoryProtocol\<close> is called and the
  generic failure notice is emitted exactly once. The handler then returns \<^verbatim>\<open>false\<close>, or,
  if the callback throws on the failure notice, is rejected with the callback's error.
\<close>

theorem audio_failure_stops_pipeline:
  assumes "GenerateAudio s \<in> set (fst (handler w env memory state callback))"
    and "generateAudio w s = Inl e"
  shows "(\<forall>x \<in> set (fst (handler w env memory state callback)). \<not> downstream x)
       \<and> count_list (fst (handler w env memory state callback)) (Callback text_error) = 1
       \<and> (\<exists>cb. callback = Some cb
             \<and> snd (handler w env memory state callback)
                 = (case cb text_error of Inl e' \<Rightarrow> Inl e' | Inr u \<Rightarrow> Inr False))"
proof -
  have "preceded audio_first [] (handler w env memory state callback)"
    by (rule preceded_handler) (simp_all add: audio_first_try_block)
  with assms(1) obtain pre post
    where tr: "fst (handler w env memory state callback) = pre @ GenerateAudio s # post"
      and "audio_first pre (GenerateAudio s)"
    by (auto dest: preceded_mem)
  then have pre: "\<forall>y \<in> set pre. \<not> downstream y" by simp
  have "raised w callback (GenerateAudio s) = Some e" using assms(2) by simp
  moreover have "\<not> outside_try (GenerateAudio s :: ('a, 'b) event)" by simp
  ultimately have h: "post = [LoggerError ''Podcast Generation Error:'' e, Callback text_error]
       \<and> (\<exists>cb. callback = Some cb
             \<and> snd (handler w env memory state callback) = settles_after_catch cb)
       \<and> (\<forall>x \<in> set pre. raised w callback x = None \<and> \<not> outside_try x)"
    by (rule handler_after_raise [OF tr])
  have "Callback text_error \<notin> set pre"
  proof
    assume "Callback text_error \<in> set pre"
    with h have "\<not> outside_try (Callback text_error :: ('a, 'b) event)" by blast
    then show False by simp
  qed
  then have "count_list pre (Callback text_error) = 0" by (simp add: count_list_0_iff)
  with h pre tr show ?thesis by (simp add: settles_after_catch_def)
qed

theorem audio_failure_stops_pipeline_witness:
  "GenerateAudio script_ok
     \<in> set (fst (handler world_tts_down env_ok memory_gm None (Some sink_ok)))
   \<and> generateAudio world_tts_down script_ok = Inl (Error ''tts down'')
   \<and> filter downstream (fst (handler world_tts_down env_ok memory_gm None (Some sink_ok))) = []
   \<and> count_list (fst (handler world_tts_down env_ok memory_gm None (Some sink_ok)))
       (Callback text_error) = 1
   \<and> snd (handler world_tts_down env_ok memory_gm None (Some sink_ok)) = Inr False"
proof -
  have a: "GenerateAudio script_ok
      \<in> set (fst (handler world_tts_down env_ok memory_gm None (Some sink_ok)))"
    by (simp add: run_tts_down)
  have b: "generateAudio world_tts_down script_ok = Inl (Error ''tts down'')"
    by (simp add: world_tts_down_def)
  note t = audio_failure_stops_pipeline [OF a b]
  then have "filter downstream (fst (handler world_tts_down env_ok memory_gm None (Some sink_ok))) = []"
    by (simp add: filter_empty_conv)
  moreover from t have "snd (handler world_tts_down env_ok memory_gm None (Some sink_ok)) = Inr False"
    by (auto simp add: sink_ok_def)
  ultimately show ?thesis using a b t by blast
qed

text \<open>
  C5, as stated, fails: the handler does not read the batch back from the session state.
  Given a state that holds the batch \<open>stale\<close> and an inbound text whose extraction is \<open>gm\<close>,
  the one prompt of the run carries \<open>gm\<close>.
\<close>

theorem handler_ignores_attached_batch_counterexample:
  "state_daily_messages state_stale = Some [''stale'']
   \<and> prompt_batches (fst (handler world_ok env_ok memory_gm (Some state_stale) (Some sink_ok))) = [[''gm'']]"
  by (simp add: run_ok events_until_speech_def events_after_speech_def prompt_of_def
      state_stale_def)

text \<open>
  C5, amended. Whenever validation succeeds, a batch was extracted from the inbound text,
  a state was given, and validation leaves that state with the batch attached as
  \<^verbatim>\<open>daily_messages\<close>. The handler does not read it back: its run is the same for every
  state; the batch of its prompts is the one it extracts itself from the same inbound text,
  which is equal to the attached one.
\<close>

theorem validate_attaches_handler_reextracts:
  "(fst (validate w memory state) \<longrightarrow>
      (\<exists>msgs st. extractMessages w (content_text memory) = Some msgs \<and> state = Some st
         \<and> snd (validate w memory state) = Some (st \<lparr> state_daily_messages := Some msgs \<rparr>)
         \<and> (\<forall>c \<in> set (prompt_batches
                (fst (handler w env memory (snd (validate w memory state)) callback))).
              c = msgs)))
   \<and> handler w env memory (snd (validate w memory state)) callback
       = handler w env memory state' callback"
proof (intro conjI impI)
  assume v: "fst (validate w memory state)"
  then obtain msgs st where e: "extractMessages w (content_text memory) = Some msgs"
    and s: "state = Some st"
    by (auto simp add: validate_def split: option.splits)
  then have "snd (validate w memory state) = Some (st \<lparr> state_daily_messages := Some msgs \<rparr>)"
    by (simp add: validate_def)
  moreover have "\<forall>c \<in> set (prompt_batches
                (fst (handler w env memory (snd (validate w memory state)) callback))). c = msgs"
    using handler_batches [of w env memory "snd (validate w memory state)" callback] e by simp
  ultimately show "\<exists>msgs st. extractMessages w (content_text memory) = Some msgs \<and> state = Some st
         \<and> snd (validate w memory state) = Some (st \<lparr> state_daily_messages := Some msgs \<rparr>)
         \<and> (\<forall>c \<in> set (prompt_batches
                (fst (handler w env memory (snd (validate w memory state)) callback))).
              c = msgs)"
    using e s by blast
next
  show "handler w env memory (snd (validate w memory state)) callback
       = handler w env memory state' callback"
    by (rule handler_ignores_state)
qed

theorem validate_attaches_handler_reextracts_witness:
  "fst (validate world_ok memory_gm (Some state_stale))
   \<and> snd (validate world_ok memory_gm (Some state_stale))
       = Some \<lparr> state_daily_messages = Some [''gm''] \<rparr>
   \<and> handler world_ok env_ok memory_gm (snd (validate world_ok memory_gm (Some state_stale))) (Some sink_ok)
       = handler world_ok env_ok memory_gm None (Some sink_ok)"
proof -
  have a: "fst (validate world_ok memory_gm (Some state_stale))"
    by (simp add: validate_def world_ok_def memory_gm_def)
  have b: "snd (validate world_ok memory_gm (Some state_stale))
       = Some \<lparr> state_daily_messages = Some [''gm''] \<rparr>"
    by (simp add: validate_def world_ok_def memory_gm_def state_stale_def)
  from a b validate_attaches_handler_reextracts
    [of world_ok memory_gm "Some state_stale" env_ok "Some sink_ok" None]
  show ?thesis by blast
qed

text \<open>
  C6. For every batch and every value of the random parameters, the prompt that
  \<^verbatim>\<open>generatePodcastContent\<close> serialises for the language model has the four fixed strings
  as instruction, topic, duration and language, the batch as \<^verbatim>\<open>daily_messages\<close> and the
  value as \<^verbatim>\<open>random_parameters\<close>. The prompt is a total function of the two inputs: once
  the client is constructed, the serialisation of exactly this prompt is the next event,
  with no call in between. The request sent to the model carries the serialised prompt.
\<close>

theorem prompt_fields:
  "(\<forall>p. JsonStringifyPrompt p \<in> set (fst (generatePodcastContent w msgs rp k)) \<longrightarrow>
      instruction p = ''Generate a podcast script based on the day's messages. Create natural speech without formatting.''
      \<and> topic p = ''Ethereum Denver 2025 daily podcast''
      \<and> daily_messages p = msgs
      \<and> random_parameters p = rp
      \<and> duration p = ''20 Seconds''
      \<and> language p = ''English'')
   \<and> (\<forall>u. newAnthropic w k = Inr u \<longrightarrow>
        take 2 (fst (generatePodcastContent w msgs rp k))
          = [NewAnthropic k, JsonStringifyPrompt (prompt_of msgs rp)])
   \<and> (\<forall>r. MessagesCreate r \<in> set (fst (generatePodcastContent w msgs rp k)) \<longrightarrow>
        (\<exists>pj. jsonStringifyPrompt w (prompt_of msgs rp) = Inr pj \<and> r = request_of pj))"
  unfolding generatePodcastContent_cases
  by (auto simp add: prompt_of_def split: sum.splits)

theorem prompt_fields_witness:
  "JsonStringifyPrompt (prompt_of [''gm''] ''seed'')
     \<in> set (fst (generatePodcastContent world_ok [''gm''] ''seed'' ''set''))
   \<and> newAnthropic world_ok ''set'' = Inr ()
   \<and> MessagesCreate (request_of ''gmseed'')
     \<in> set (fst (generatePodcastContent world_ok [''gm''] ''seed'' ''set''))
   \<and> daily_messages (prompt_of [''gm''] ''seed'') = [''gm'']
   \<and> random_parameters (prompt_of [''gm''] ''seed'') = ''seed''
   \<and> topic (prompt_of [''gm''] ''seed'') = ''Ethereum Denver 2025 daily podcast''
   \<and> take 2 (fst (generatePodcastContent world_ok [''gm''] ''seed'' ''set''))
       = [NewAnthropic ''set'', JsonStringifyPrompt (prompt_of [''gm''] ''seed'')]
   \<and> jsonStringifyPrompt world_ok (prompt_of [''gm''] ''seed'') = Inr ''gmseed''"
proof -
  note t = prompt_fields [of world_ok "[''gm'']" "''seed''" "''set''"]
  have a: "JsonStringifyPrompt (prompt_of [''gm''] ''seed'')
     \<in> set (fst (generatePodcastContent world_ok [''gm''] ''seed'' ''set''))"
    by (simp add: content_ok)
  have b: "newAnthropic world_ok ''set'' = Inr ()" by (simp add: world_ok_def)
  have c: "MessagesCreate (request_of ''gmseed'')
     \<in> set (fst (generatePodcastContent world_ok [''gm''] ''seed'' ''set''))"
    by (simp add: content_ok)
  from t a have "daily_messages (prompt_of [''gm''] ''seed'') = [''gm'']
      \<and> random_parameters (prompt_of [''gm''] ''seed'') = ''seed''
      \<and> topic (prompt_of [''gm''] ''seed'') = ''Ethereum Denver 2025 daily podcast''" by blast
  moreover from t b have "take 2 (fst (generatePodcastContent world_ok [''gm''] ''seed'' ''set''))
       = [NewAnthropic ''set'', JsonStringifyPrompt (prompt_of [''gm''] ''seed'')]" by blast
  moreover from t c have "\<exists>pj. jsonStringifyPrompt world_ok (prompt_of [''gm''] ''seed'') = Inr pj
      \<and> request_of ''gmseed'' = request_of pj" by blast
  then have "jsonStringifyPrompt world_ok (prompt_of [''gm''] ''seed'') = Inr ''gmseed''"
    by (auto simp add: request_of_def)
  ultimately show ?thesis using a b c by blast
qed

text \<open>
  C7. When the language model answers the request of \<^verbatim>\<open>generatePodcastContent\<close> with a
  list of blocks, the script returned is the texts of the text blocks, in response order,
  joined by newlines; the other blocks are dropped.
\<close>

theorem script_is_joined_text_blocks:
  assumes "MessagesCreate r \<in> set (fst (generatePodcastContent w msgs rp k))"
    and "messagesCreate w r = Inr blocks"
  shows "snd (generatePodcastContent w msgs rp k) = Inr (newline_joined (text_segments blocks))"
  using assms unfolding generatePodcastContent_cases
  by (auto split: sum.splits)

theorem script_is_joined_text_blocks_witness:
  "MessagesCreate (request_of ''gmseed'')
     \<in> set (fst (generatePodcastContent world_ok [''gm''] ''seed'' ''set''))
   \<and> messagesCreate world_ok (request_of ''gmseed'')
       = Inr [TextBlock ''Good morning'', ToolUseBlock ''t1'' ''search'' ''{}'', TextBlock ''Denver'']
   \<and> snd (generatePodcastContent world_ok [''gm''] ''seed'' ''set'')
       = Inr (newline_joined (text_segments
           [TextBlock ''Good morning'', ToolUseBlock ''t1'' ''search'' ''{}'', TextBlock ''Denver'']))
   \<and> newline_joined (text_segments
           [TextBlock ''Good morning'', ToolUseBlock ''t1'' ''search'' ''{}'', TextBlock ''Denver''])
       = ''Good morning'' @ [CHR 0x0A] @ ''Denver''"
proof -
  have a: "MessagesCreate (request_of ''gmseed'')
     \<in> set (fst (generatePodcastContent world_ok [''gm''] ''seed'' ''set''))"
    by (simp add: content_ok)
  have b: "messagesCreate world_ok (request_of ''gmseed'')
       = Inr [TextBlock ''Good morning'', ToolUseBlock ''t1'' ''search'' ''{}'', TextBlock ''Denver'']"
    by (simp add: world_ok_def)
  have c: "newline_joined (text_segments
           [TextBlock ''Good morning'', ToolUseBlock ''t1'' ''search'' ''{}'', TextBlock ''Denver''])
       = ''Good morning'' @ [CHR 0x0A] @ ''Denver''"
    by (simp add: newline_joined_def)
  from a b c script_is_joined_text_blocks [OF a b] show ?thesis by blast
qed

text \<open>
  C8. Whenever the handler uploads a metadata object, its name is the fixed string, its
  description is the fixed prefix followed by the JSON text of the random parameters that
  \<^verbatim>\<open>requestRandomParameters\<close> returned, its image is the fixed URL, and its external URL
  is the gateway prefix followed by the identifier that the call of \<^verbatim>\<open>uploadAudioFile\<close>
  in the same run returned.
\<close>

theorem uploaded_metadata_shape:
  assumes "UploadMetadata md \<in> set (fst (handler w env memory state callback))"
  shows "\<exists>rp pj au ah.
           requestRandomParameters w = Inr rp \<and> jsonStringify w rp = Inr pj
           \<and> UploadAudioFile au \<in> set (fst (handler w env memory state callback))
           \<and> uploadAudioFile w au = Inr ah
           \<and> name md = ''BuffiCast Podcast''
           \<and> description md = ''Podcast generated by BuffiCast with parameters: '' @ pj
           \<and> image_url md = ''https://ipfs.io/ipfs/bafkreifqzkq7tzppc22fa2f52sg2cruvomne2tp34yhdnx3ub2xw24b52m''
           \<and> external_url md = ''https://ipfs.io/ipfs/'' @ ah"
proof -
  have "preceded (metadata_built w) [] (handler w env memory state callback)"
    by (rule preceded_handler) (simp_all add: metadata_built_try_block)
  with assms obtain pre post
    where tr: "fst (handler w env memory state callback) = pre @ UploadMetadata md # post"
      and "metadata_built w pre (UploadMetadata md)"
    by (auto dest: preceded_mem)
  then obtain rp pj au ah where "requestRandomParameters w = Inr rp" "jsonStringify w rp = Inr pj"
    "UploadAudioFile au \<in> set pre" "uploadAudioFile w au = Inr ah"
    "md = \<lparr> name = ''BuffiCast Podcast'',
            description = ''Podcast generated by BuffiCast with parameters: '' @ pj,
            image_url = ''https://ipfs.io/ipfs/bafkreifqzkq7tzppc22fa2f52sg2cruvomne2tp34yhdnx3ub2xw24b52m'',
            external_url = ''https://ipfs.io/ipfs/'' @ ah \<rparr>"
    by auto
  with tr show ?thesis by auto
qed

theorem uploaded_metadata_shape_witness:
  "UploadMetadata (metadata_of ''seed'' ''QmAudio'')
     \<in> set (fst (handler world_ok env_ok memory_gm None (Some sink_ok)))
   \<and> (\<exists>rp pj au ah.
        requestRandomParameters world_ok = Inr rp \<and> jsonStringify world_ok rp = Inr pj
        \<and> UploadAudioFile au \<in> set (fst (handler world_ok env_ok memory_gm None (Some sink_ok)))
        \<and> uploadAudioFile world_ok au = Inr ah
        \<and> name (metadata_of ''seed'' ''QmAudio'') = ''BuffiCast Podcast''
        \<and> description (metadata_of ''seed'' ''QmAudio'')
            = ''Podcast generated by BuffiCast with parameters: '' @ pj
        \<and> image_url (metadata_of ''seed'' ''QmAudio'')
            = ''https://ipfs.io/ipfs/bafkreifqzkq7tzppc22fa2f52sg2cruvomne2tp34yhdnx3ub2xw24b52m''
        \<and> external_url (metadata_of ''seed'' ''QmAudio'') = ''https://ipfs.io/ipfs/'' @ ah)"
proof -
  have a: "UploadMetadata (metadata_of ''seed'' ''QmAudio'')
     \<in> set (fst (handler world_ok env_ok memory_gm None (Some sink_ok)))"
    by (simp add: run_ok events_after_speech_def)
  from a uploaded_metadata_shape [OF a] show ?thesis by blast
qed

text \<open>
  C9. Called without a callback, the handler throws before it reads the configuration and
  before the \<^verbatim>\<open>try\<close> block: the run has no event at all (no notification, no log line,
  no call) and the promise is rejected with the error; it is not turned into the failure
  notice and the value \<^verbatim>\<open>false\<close>.
\<close>

theorem handler_without_callback:
  "handler w env memory state None = ([], Inl (Error ''Callback is required''))"
  by (simp add: handler_def)

theorem handler_without_callback_witness:
  "handler world_ok env_no_jwt memory_gm None None = ([], Inl (Error ''Callback is required''))
   \<and> handler world_ok env_ok memory_gm None None = ([], Inl (Error ''Callback is required''))"
  using handler_without_callback [of world_ok env_no_jwt memory_gm None]
    handler_without_callback [of world_ok env_ok memory_gm None]
  by simp



end
